theory Spec2Isabelle
  imports Main
begin

section \<open>Regular expression engine (ptk/regex.py)\<close>

subsection \<open>Errors\<close>

text \<open>
  Every exception class the modelled code raises, or that the Python runtime raises on
  its behalf, is a value of one datatype. A function that can raise returns
  \<open>error + 'a\<close> with \<open>Inl\<close> the exception.
\<close>

datatype error =
    DeadState
  | TokenizeError
  | BackslashAtEndOfInputError
  | UnterminatedClassError
  | InvalidClassError
  | InvalidExponentError
  | RegexParseError
  | TypeError
  | AttributeError
  | IndexError
  | KeyError
  | ValueError

subsection \<open>Character classes\<close>

text \<open>
  Characters are the 8-bit characters of HOL; the model covers text patterns and text
  input. \<open>RegexCharacterClass\<close> delegates to the host's \<open>re\<close> module, which is
  not part of the repository: its two operations (does a pattern compile, does a compiled
  pattern match one character) are parameters of the model.
\<close>

record host =
  re_compiles :: "string \<Rightarrow> bool"
  re_match :: "string \<Rightarrow> char \<Rightarrow> bool"

datatype CharacterClass =
    AnyCharacterClass
  | RegexCharacterClass string
  | LitteralCharacterClass char

fun contains :: "host \<Rightarrow> CharacterClass \<Rightarrow> char \<Rightarrow> bool" where
  "contains h AnyCharacterClass c = (c \<noteq> CHR 0x0A)"
| "contains h (RegexCharacterClass p) c = re_match h p c"
| "contains h (LitteralCharacterClass x) c = (c = x)"

subsection \<open>The automaton\<close>

text \<open>
  A \<open>_State\<close> object has no fields: only its identity matters. States are natural
  numbers handed out by an allocation counter, so two states are the same object exactly
  when they are the same number. A transition is \<open>(startState, class/None, endState)\<close>.
\<close>

type_synonym state = nat

type_synonym transition = "state \<times> CharacterClass option \<times> state"

record RegularExpression =
  transitions :: "transition list"
  startState :: state
  finalState :: state
  currentState :: "state set option"
  startStates :: "state set"


subsection \<open>Matching\<close>

text \<open>
  \<open>_epsilonClose\<close>: every pass of the \<open>while\<close> loop walks a snapshot of the set and
  adds the end state of each \<open>None\<close>-labelled transition leaving it; the loop stops after
  the first pass that adds nothing. The result of a pass does not depend on the order in
  which Python walks the set.
\<close>

definition epsilonStep :: "RegularExpression \<Rightarrow> state set \<Rightarrow> state set" where
  "epsilonStep self newStates =
     newStates \<union> set [e. (s, t, e) \<leftarrow> transitions self, s \<in> newStates \<and> t = None]"

function epsilonClose :: "RegularExpression \<Rightarrow> state set \<Rightarrow> state set" where
  "epsilonClose self states =
     (if epsilonStep self states = states then states
      else epsilonClose self (epsilonStep self states))"
  by pat_completeness auto
termination
proof (relation "measure (\<lambda>(self, states). card ((\<lambda>(s, t, e). e) ` set (transitions self) - states))")
  show "wf (measure (\<lambda>(self, states). card ((\<lambda>(s, t, e). e) ` set (transitions self) - states)))"
    by simp
next
  fix self :: RegularExpression and states :: "state set"
  let ?E = "(\<lambda>(s, t, e). e) ` set (transitions self)"
  let ?S' = "epsilonStep self states"
  assume ne: "?S' \<noteq> states"
  have sub: "states \<subseteq> ?S'" by (simp add: epsilonStep_def)
  have new: "?S' \<subseteq> states \<union> ?E" by (force simp: epsilonStep_def)
  from ne sub obtain x where x: "x \<in> ?S'" "x \<notin> states" by blast
  with new have xE: "x \<in> ?E" by blast
  have "?E - ?S' \<subset> ?E - states" using x xE sub by blast
  moreover have "finite (?E - states)" by simp
  ultimately have "card (?E - ?S') < card (?E - states)" by (rule psubset_card_mono[rotated])
  then show "((self, ?S'), (self, states)) \<in>
      measure (\<lambda>(self, states). card ((\<lambda>(s, t, e). e) ` set (transitions self) - states))"
    by simp
qed

declare epsilonClose.simps [simp del]

text \<open>\<open>_closure\<close>: the end states of the class-labelled transitions that leave \<open>states\<close>
  and whose class contains \<open>char\<close>.\<close>

definition closure :: "host \<Rightarrow> RegularExpression \<Rightarrow> state set \<Rightarrow> char \<Rightarrow> state set" where
  "closure h self states char =
     set [e. (s, t, e) \<leftarrow> transitions self,
             t \<noteq> None \<and> s \<in> states \<and> contains h (the t) char]"

definition start :: "RegularExpression \<Rightarrow> RegularExpression" where
  "start self = self\<lparr>currentState := Some (epsilonClose self {startState self})\<rparr>"

text \<open>
  \<open>feed\<close> returns the object after the call together with what the call returned or
  raised; the assignment to \<open>_currentState\<close> happens before \<open>DeadState\<close> is raised.
  Before \<open>start()\<close> the current set is \<open>None\<close>: the membership test \<open>startState in
  states\<close> then raises \<open>TypeError\<close> as soon as a class-labelled transition is looked at.
\<close>

definition feed :: "host \<Rightarrow> RegularExpression \<Rightarrow> char \<Rightarrow> RegularExpression \<times> (error + bool)" where
  "feed h self char =
     (case currentState self of
        None \<Rightarrow>
          if \<exists>(s, t, e) \<in> set (transitions self). t \<noteq> None then (self, Inl TypeError)
          else (self\<lparr>currentState := Some (epsilonClose self {})\<rparr>, Inl DeadState)
      | Some cur \<Rightarrow>
          let new = epsilonClose self (closure h self cur char);
              self' = self\<lparr>currentState := Some new\<rparr>
          in if new = {} then (self', Inl DeadState)
             else (self', Inr (finalState self \<in> new)))"

text \<open>
  \<open>match\<close> starts the automaton and feeds the characters in order; \<open>DeadState\<close> is the
  only exception it catches. The loop carries the object from one \<open>feed\<close> to the next.
\<close>

fun feed_all :: "host \<Rightarrow> RegularExpression \<Rightarrow> string \<Rightarrow> RegularExpression \<times> (error + unit)" where
  "feed_all h self [] = (self, Inr ())"
| "feed_all h self (char # string) =
     (case feed h self char of
        (self', Inl e) \<Rightarrow> (self', Inl e)
      | (self', Inr _) \<Rightarrow> feed_all h self' string)"

definition match :: "host \<Rightarrow> RegularExpression \<Rightarrow> string \<Rightarrow> RegularExpression \<times> (error + bool)" where
  "match h self string =
     (case feed_all h (start self) string of
        (self', Inl DeadState) \<Rightarrow> (self', Inr False)
      | (self', Inl e) \<Rightarrow> (self', Inl e)
      | (self', Inr _) \<Rightarrow>
          (self', (case currentState self' of
                     None \<Rightarrow> Inl TypeError
                   | Some cur \<Rightarrow> Inr (finalState self' \<in> cur))))"

definition isDeadEnd :: "RegularExpression \<Rightarrow> bool" where
  "isDeadEnd self =
     (case currentState self of
        None \<Rightarrow> False
      | Some cur \<Rightarrow> cur \<noteq> {} \<and> (\<forall>state \<in> cur. state \<notin> startStates self))"

subsection \<open>Construction\<close>

text \<open>
  The construction primitives take \<open>RegularExpression\<close> objects and build new ones, so
  they are modelled over a store: \<open>objs\<close> maps the address of an object to its fields,
  \<open>nextObj\<close> and \<open>nextState\<close> are the allocation counters for objects and for
  \<open>_State\<close> instances. Every assignment to \<open>_transitions\<close> in the source installs a list
  made on the spot (\<open>list()\<close>, \<open>list(xs)\<close>, a display), so no two objects ever share a
  list and the list is kept by value in its object.
\<close>

record world =
  objs :: "nat \<Rightarrow> RegularExpression"
  nextObj :: nat
  nextState :: nat

text \<open>\<open>RegularExpression()\<close>: a new object with two new states and no transitions.\<close>

definition new_RegularExpression :: "world \<Rightarrow> nat \<times> world" where
  "new_RegularExpression w =
     (nextObj w,
      w\<lparr>objs := (objs w)(nextObj w :=
             \<lparr>transitions = [], startState = nextState w, finalState = nextState w + 1,
              currentState = None, startStates = {}\<rparr>),
        nextObj := nextObj w + 1,
        nextState := nextState w + 2\<rparr>)"

definition sources :: "transition list \<Rightarrow> state set" where
  "sources ts = set [s. (s, t, e) \<leftarrow> ts]"

text \<open>The four \<open>if\<close> statements of the loop body of \<open>clone\<close>, in their order.\<close>

definition clone_transition :: "RegularExpression \<Rightarrow> RegularExpression \<Rightarrow> transition \<Rightarrow> transition" where
  "clone_transition self result tr =
     (case tr of (startState0, label, endState0) \<Rightarrow>
        let startState1 = (if startState0 = startState self then startState result else startState0);
            startState2 = (if startState1 = finalState self then finalState result else startState1);
            endState1 = (if endState0 = startState self then startState result else endState0);
            endState2 = (if endState1 = finalState self then finalState result else endState1)
        in (startState2, label, endState2))"

definition clone :: "nat \<Rightarrow> world \<Rightarrow> nat \<times> world" where
  "clone self w =
     (case new_RegularExpression w of (result, w1) \<Rightarrow>
        let ts = map (clone_transition (objs w1 self) (objs w1 result)) (transitions (objs w1 self))
        in (result,
            w1\<lparr>objs := (objs w1)(result :=
                  (objs w1 result)\<lparr>transitions := ts, startStates := sources ts\<rparr>)\<rparr>))"

definition fromClass :: "CharacterClass \<Rightarrow> world \<Rightarrow> nat \<times> world" where
  "fromClass klass w =
     (case new_RegularExpression w of (result, w1) \<Rightarrow>
        let ts = [(startState (objs w1 result), Some klass, finalState (objs w1 result))]
        in (result,
            w1\<lparr>objs := (objs w1)(result :=
                  (objs w1 result)\<lparr>transitions := ts, startStates := sources ts\<rparr>)\<rparr>))"

text \<open>\<open>[rx.clone() for rx in rxs]\<close>\<close>

fun clone_all :: "nat list \<Rightarrow> world \<Rightarrow> nat list \<times> world" where
  "clone_all [] w = ([], w)"
| "clone_all (rx # rxs) w =
     (case clone rx w of (c, w1) \<Rightarrow>
        case clone_all rxs w1 of (cs, w2) \<Rightarrow> (c # cs, w2))"

text \<open>The inner loop of \<open>concat\<close>: the transitions of \<open>rx2\<close>, its start state replaced by
  the final state of \<open>rx1\<close>.\<close>

definition concat_link :: "RegularExpression \<Rightarrow> RegularExpression \<Rightarrow> transition list" where
  "concat_link rx1 rx2 =
     map (\<lambda>(startState0, label, endState0).
            ((if startState0 = startState rx2 then finalState rx1 else startState0),
             label,
             (if endState0 = startState rx2 then finalState rx1 else endState0)))
         (transitions rx2)"

definition concat_rx :: "nat list \<Rightarrow> world \<Rightarrow> nat \<times> world" where
  "concat_rx rxs0 w =
     (case clone_all rxs0 w of (rxs, w1) \<Rightarrow>
      case new_RegularExpression w1 of (result, w2) \<Rightarrow>
        let res = objs w2 result;
            res' =
              (if rxs \<noteq> [] then
                 let ts = transitions (objs w2 (hd rxs))
                            @ List.concat (map (\<lambda>(rx1, rx2). concat_link (objs w2 rx1) (objs w2 rx2))
                                               (zip (butlast rxs) (tl rxs)))
                 in res\<lparr>transitions := ts,
                        startState := startState (objs w2 (hd rxs)),
                        finalState := finalState (objs w2 (last rxs)),
                        startStates := sources ts\<rparr>
               else
                 let ts = [(startState res, None, finalState res)]
                 in res\<lparr>transitions := ts, startStates := sources ts\<rparr>)
        in (result, w2\<lparr>objs := (objs w2)(result := res')\<rparr>))"

text \<open>The body of the loop of \<open>union\<close> for one clone.\<close>

definition union_part :: "RegularExpression \<Rightarrow> RegularExpression \<Rightarrow> transition list" where
  "union_part result rx =
     transitions rx
       @ [(startState result, None, startState rx), (finalState rx, None, finalState result)]"

definition union_rx :: "nat list \<Rightarrow> world \<Rightarrow> nat \<times> world" where
  "union_rx rxs0 w =
     (case new_RegularExpression w of (result, w1) \<Rightarrow>
      case clone_all rxs0 w1 of (rxs, w2) \<Rightarrow>
        let res = objs w2 result;
            ts = List.concat (map (\<lambda>rx. union_part res (objs w2 rx)) rxs)
        in (result,
            w2\<lparr>objs := (objs w2)(result := res\<lparr>transitions := ts, startStates := sources ts\<rparr>)\<rparr>))"

definition kleene :: "nat \<Rightarrow> world \<Rightarrow> nat \<times> world" where
  "kleene rx w =
     (case new_RegularExpression w of (result, w1) \<Rightarrow>
        let res = objs w1 result;
            r = objs w1 rx;
            ts = transitions r
                   @ [(startState res, None, finalState res),
                      (finalState r, None, startState r),
                      (startState res, None, startState r),
                      (finalState r, None, finalState res)]
        in (result,
            w1\<lparr>objs := (objs w1)(result := res\<lparr>transitions := ts, startStates := sources ts\<rparr>)\<rparr>))"

text \<open>\<open>[concat(*[rx for _ in range(count)]) for count in range(minCount, maxCount+1)]\<close>\<close>

fun concat_powers :: "nat \<Rightarrow> int list \<Rightarrow> world \<Rightarrow> nat list \<times> world" where
  "concat_powers rx [] w = ([], w)"
| "concat_powers rx (count # counts) w =
     (case concat_rx (replicate (nat count) rx) w of (c, w1) \<Rightarrow>
        case concat_powers rx counts w1 of (cs, w2) \<Rightarrow> (c # cs, w2))"

function exponent :: "nat \<Rightarrow> int \<Rightarrow> int option \<Rightarrow> world \<Rightarrow> nat \<times> world" where
  "exponent rx minCount None w =
     (case exponent rx minCount (Some minCount) w of (e, w1) \<Rightarrow>
        case kleene rx w1 of (k, w2) \<Rightarrow> concat_rx [e, k] w2)"
| "exponent rx minCount (Some maxCount) w =
     (case concat_powers rx [minCount..maxCount] w of (cs, w1) \<Rightarrow> union_rx cs w1)"
  by pat_completeness auto
termination
  by (relation "measure (\<lambda>(rx, minCount, maxCount, w). case maxCount of None \<Rightarrow> 1 | Some _ \<Rightarrow> 0)") auto

declare exponent.simps [simp del]

text \<open>The store before anything was built.\<close>

definition empty_world :: world where
  "empty_world =
     \<lparr>objs = (\<lambda>_. \<lparr>transitions = [], startState = 0, finalState = 0,
                    currentState = None, startStates = {}\<rparr>),
      nextObj = 0, nextState = 0\<rparr>"

section \<open>Reference notions\<close>

subsection \<open>What \<open>feed\<close> computes\<close>

text \<open>
  The reference notions the automaton is measured against: the \<open>\<epsilon>\<close>-edges of a graph as a
  relation, the \<open>\<epsilon>\<close>-closure of a set as everything reachable along zero or more of
  them, and the one-character move.
\<close>

definition epsilon_edges :: "RegularExpression \<Rightarrow> (state \<times> state) set" where
  "epsilon_edges self = {(s, e). (s, None, e) \<in> set (transitions self)}"

definition epsilon_closure :: "RegularExpression \<Rightarrow> state set \<Rightarrow> state set" where
  "epsilon_closure self S = (epsilon_edges self)\<^sup>* `` S"

definition move :: "host \<Rightarrow> RegularExpression \<Rightarrow> state set \<Rightarrow> char \<Rightarrow> state set" where
  "move h self S ch =
     {e. \<exists>s \<in> S. \<exists>k. (s, Some k, e) \<in> set (transitions self) \<and> contains h k ch}"

subsection \<open>Allocation\<close>

text \<open>
  \<open>extends w w'\<close>: the store \<open>w'\<close> came from \<open>w\<close> by allocation only, so every object that
  existed in \<open>w\<close> has the fields it had. \<open>fresh_result w (q, w')\<close>: moreover \<open>q\<close> is an
  object made since \<open>w\<close>, and its start and final states were made since \<open>w\<close>.
\<close>

definition extends :: "world \<Rightarrow> world \<Rightarrow> bool" where
  "extends w w' =
     (nextObj w \<le> nextObj w' \<and> nextState w \<le> nextState w'
      \<and> (\<forall>p < nextObj w. objs w' p = objs w p))"

definition fresh_result :: "world \<Rightarrow> nat \<times> world \<Rightarrow> bool" where
  "fresh_result w r =
     (case r of (q, w') \<Rightarrow>
        extends w w' \<and> nextObj w \<le> q \<and> q < nextObj w'
        \<and> nextState w \<le> startState (objs w' q) \<and> startState (objs w' q) < nextState w'
        \<and> nextState w \<le> finalState (objs w' q) \<and> finalState (objs w' q) < nextState w')"




section \<open>Example inputs\<close>

text \<open>The object a construction call returned, read from the store it returned.\<close>

definition built :: "nat \<times> world \<Rightarrow> RegularExpression" where
  "built r = objs (snd r) (fst r)"

text \<open>A host whose \<open>re\<close> compiles every pattern and matches nothing: the examples use
  literal classes only and never consult it.\<close>

definition no_host :: host where
  "no_host = \<lparr>re_compiles = (\<lambda>p. True), re_match = (\<lambda>p c. False)\<rparr>"


text \<open>The template of the regular expression \<open>ab\<close>, as the parser builds it:
  \<open>concat(fromClass('a'), fromClass('b'))\<close> in the empty store.\<close>

definition ab_template :: "nat \<times> world" where
  "ab_template =
     (case fromClass (LitteralCharacterClass CHR ''a'') empty_world of (a, w1) \<Rightarrow>
      case fromClass (LitteralCharacterClass CHR ''b'') w1 of (b, w2) \<Rightarrow>
        concat_rx [a, b] w2)"


section \<open>Properties of the regular expression engine\<close>

subsection \<open>The closure computed by \<open>feed\<close>\<close>

lemma epsilonStep_Image:
  "epsilonStep self S = S \<union> epsilon_edges self `` S"
  by (force simp: epsilonStep_def epsilon_edges_def)

lemma epsilonClose_is_closure:
  "epsilonClose self S = epsilon_closure self S"
proof (induction self S rule: epsilonClose.induct)
  case (1 self states)
  let ?R = "epsilon_edges self"
  show ?case
  proof (cases "epsilonStep self states = states")
    case True
    then have "?R `` states \<subseteq> states"
      by (auto simp: epsilonStep_Image)
    then have "?R\<^sup>* `` states = states"
      by (rule Image_closed_trancl)
    with True show ?thesis
      by (simp add: epsilonClose.simps [of self states] epsilon_closure_def)
  next
    case False
    have "?R\<^sup>* `` (states \<union> ?R `` states) = ?R\<^sup>* `` states"
    proof
      show "?R\<^sup>* `` (states \<union> ?R `` states) \<subseteq> ?R\<^sup>* `` states"
        by (auto intro: converse_rtrancl_into_rtrancl)
      show "?R\<^sup>* `` states \<subseteq> ?R\<^sup>* `` (states \<union> ?R `` states)"
        by blast
    qed
    with False "1.IH" show ?thesis
      by (simp add: epsilonClose.simps [of self states] epsilon_closure_def epsilonStep_Image)
  qed
qed

lemma closure_is_move:
  "closure h self S ch = move h self S ch"
  by (force simp: closure_def move_def)

text \<open>
  Claim C6. With a current set in place (the automaton was started), \<open>feed(ch)\<close> replaces
  the current set by the \<open>\<epsilon>\<close>-closure of the states reached from it over one transition
  whose class contains \<open>ch\<close>, and touches no other field; it raises \<open>DeadState\<close> exactly
  when that set is empty, and otherwise returns whether the final state is in it.
\<close>

theorem feed_replaces_current_by_closure_of_move:
  assumes "currentState self = Some cur"
  shows "fst (feed h self ch)
           = self\<lparr>currentState := Some (epsilon_closure self (move h self cur ch))\<rparr>
       \<and> ((snd (feed h self ch) = Inl DeadState)
            = (epsilon_closure self (move h self cur ch) = {}))
       \<and> (epsilon_closure self (move h self cur ch) \<noteq> {} \<longrightarrow>
            snd (feed h self ch)
              = Inr (finalState self \<in> epsilon_closure self (move h self cur ch)))"
  using assms
  by (simp add: feed_def Let_def epsilonClose_is_closure closure_is_move)

theorem feed_replaces_current_by_closure_of_move_witness:
  "currentState
     \<lparr>transitions = [(0, Some (LitteralCharacterClass CHR ''a''), 1), (1, None, 2)],
      startState = 0, finalState = 2, currentState = Some {0}, startStates = {0, 1}\<rparr>
     = Some {0}
   \<and> fst (feed \<lparr>re_compiles = (\<lambda>p. True), re_match = (\<lambda>p c. False)\<rparr>
          \<lparr>transitions = [(0, Some (LitteralCharacterClass CHR ''a''), 1), (1, None, 2)],
           startState = 0, finalState = 2, currentState = Some {0}, startStates = {0, 1}\<rparr>
          CHR ''a'')
       = \<lparr>transitions = [(0, Some (LitteralCharacterClass CHR ''a''), 1), (1, None, 2)],
          startState = 0, finalState = 2, currentState = Some {1, 2}, startStates = {0, 1}\<rparr>
   \<and> snd (feed \<lparr>re_compiles = (\<lambda>p. True), re_match = (\<lambda>p c. False)\<rparr>
          \<lparr>transitions = [(0, Some (LitteralCharacterClass CHR ''a''), 1), (1, None, 2)],
           startState = 0, finalState = 2, currentState = Some {0}, startStates = {0, 1}\<rparr>
          CHR ''a'')
       = Inr True"
proof -
  let ?h = "\<lparr>re_compiles = (\<lambda>p. True), re_match = (\<lambda>p c. False)\<rparr>"
  let ?r = "\<lparr>transitions = [(0, Some (LitteralCharacterClass CHR ''a''), 1), (1, None, 2)],
      startState = 0, finalState = 2, currentState = Some {0::nat}, startStates = {0, 1}\<rparr>"
  have cur: "currentState ?r = Some {0}" by simp
  have mv: "move ?h ?r {0} CHR ''a'' = {1}"
    by (auto simp: move_def)
  have "epsilonClose ?r {1} = {1, 2}"
    by (auto simp: epsilonClose.simps epsilonStep_def)
  then have cl: "epsilon_closure ?r {1} = {1, 2}"
    by (simp add: epsilonClose_is_closure)
  from feed_replaces_current_by_closure_of_move [OF cur, of ?h "CHR ''a''"] mv cl
  show ?thesis by simp
qed

subsection \<open>Construction only allocates\<close>


lemma fresh_resultI:
  "extends w w' \<Longrightarrow> nextObj w \<le> q \<Longrightarrow> q < nextObj w' \<Longrightarrow> nextState w \<le> startState (objs w' q) \<Longrightarrow> startState (objs w' q) < nextState w'
   \<Longrightarrow> nextState w \<le> finalState (objs w' q) \<Longrightarrow> finalState (objs w' q) < nextState w' \<Longrightarrow> fresh_result w (q, w')"
  by (simp add: fresh_result_def)


lemma fresh_result_later: "fresh_result w (q, w1) \<Longrightarrow> extends w1 w2 \<Longrightarrow> objs w2 q = objs w1 q"
  by (auto simp: fresh_result_def extends_def)














subsection \<open>Graphs without class transitions\<close>

lemma match_Nil: "snd (match h r []) = Inr (finalState r \<in> epsilon_closure r {startState r})"
  by (simp add: match_def start_def epsilonClose_is_closure)

lemma epsilon_closure_empty: "epsilon_closure r {} = {}"
  by (simp add: epsilon_closure_def)

lemma match_Cons_no_class:
  assumes "\<forall>(s, t, e) \<in> set (transitions r). t = None"
  shows "snd (match h r (c # cs)) = Inr False"
proof -
  have "move h (start r) S c = {}" for S
    using assms by (auto simp: move_def start_def)
  then show ?thesis
    by (simp add: match_def feed_def start_def Let_def epsilonClose_is_closure closure_is_move epsilon_closure_empty)
qed

lemma concat_rx_Nil:
  "transitions (built (concat_rx [] w)) = [(nextState w, None, nextState w + 1)]
   \<and> startState (built (concat_rx [] w)) = nextState w
   \<and> finalState (built (concat_rx [] w)) = nextState w + 1"
  by (simp add: built_def concat_rx_def new_RegularExpression_def Let_def sources_def)

lemma exponent_0_0:
  "transitions (built (exponent rx 0 (Some 0) w))
     = [(nextState w + 4, None, nextState w + 5), (nextState w + 2, None, nextState w + 4),
        (nextState w + 5, None, nextState w + 3)]
   \<and> startState (built (exponent rx 0 (Some 0) w)) = nextState w + 2
   \<and> finalState (built (exponent rx 0 (Some 0) w)) = nextState w + 3"
  by (simp add: exponent.simps built_def concat_rx_def union_rx_def union_part_def clone_def clone_transition_def new_RegularExpression_def Let_def sources_def)

lemma epsilon_path3:
  assumes "(a, None, b) \<in> set (transitions r)" "(b, None, c) \<in> set (transitions r)" "(c, None, d) \<in> set (transitions r)"
  shows "d \<in> epsilon_closure r {a}"
proof -
  have "(a, b) \<in> epsilon_edges r" "(b, c) \<in> epsilon_edges r" "(c, d) \<in> epsilon_edges r"
    using assms by (simp_all add: epsilon_edges_def)
  then have "(a, d) \<in> (epsilon_edges r)\<^sup>*" by (meson rtrancl.rtrancl_into_rtrancl rtrancl.rtrancl_refl)
  then show ?thesis by (auto simp: epsilon_closure_def)
qed

lemma epsilon_path1:
  assumes "(a, None, b) \<in> set (transitions r)"
  shows "b \<in> epsilon_closure r {a}"
  using assms by (auto simp: epsilon_closure_def epsilon_edges_def)

text \<open>
  Claim C10. \<open>concat()\<close> with no operand builds a graph whose only transition is an
  \<open>\<epsilon>\<close>-transition from its start state to its (different) final state, and that graph
  accepts the empty string and nothing else; so does \<open>exponent(rx, 0, 0)\<close>, for every
  operand \<open>rx\<close> and in every store.
\<close>

theorem concat_of_nothing_accepts_only_empty:
  "transitions (built (concat_rx [] w))
     = [(startState (built (concat_rx [] w)), None, finalState (built (concat_rx [] w)))]
   \<and> startState (built (concat_rx [] w)) \<noteq> finalState (built (concat_rx [] w))
   \<and> snd (match h (built (concat_rx [] w)) s) = Inr (s = [])
   \<and> snd (match h (built (exponent rx 0 (Some 0) w)) s) = Inr (s = [])"
proof -
  let ?c = "built (concat_rx [] w)"
  let ?e = "built (exponent rx 0 (Some 0) w)"
  note c = concat_rx_Nil [of w]
  note e = exponent_0_0 [of rx w]
  have c1: "snd (match h ?c s) = Inr (s = [])"
  proof (cases s)
    case Nil
    have "finalState ?c \<in> epsilon_closure ?c {startState ?c}"
      by (rule epsilon_path1) (simp add: c)
    with Nil show ?thesis by (simp add: match_Nil)
  next
    case (Cons x xs)
    have "\<forall>(s, t, e) \<in> set (transitions ?c). t = None" by (simp add: c)
    with Cons show ?thesis by (simp add: match_Cons_no_class)
  qed
  have e1: "snd (match h ?e s) = Inr (s = [])"
  proof (cases s)
    case Nil
    have "finalState ?e \<in> epsilon_closure ?e {startState ?e}"
      by (rule epsilon_path3 [where b = "nextState w + 4" and c = "nextState w + 5"]) (simp_all add: e)
    with Nil show ?thesis by (simp add: match_Nil)
  next
    case (Cons x xs)
    have "\<forall>(s, t, e) \<in> set (transitions ?e). t = None" by (simp add: e)
    with Cons show ?thesis by (simp add: match_Cons_no_class)
  qed
  from c c1 e1 show ?thesis by simp
qed

subsection \<open>What \<open>clone\<close> shares\<close>

lemmas build_defs =
  built_def concat_rx_def union_rx_def union_part_def clone_def clone_transition_def
  new_RegularExpression_def fromClass_def kleene_def concat_link_def Let_def sources_def
  empty_world_def

lemmas match_defs =
  match_def start_def feed_def closure_def epsilonClose.simps epsilonStep_def

text \<open>
  Claim C1 does not hold of the code. \<open>clone\<close> replaces the start and the final state
  and keeps every other state: the template of \<open>ab\<close> and its clone share the state
  between \<open>a\<close> and \<open>b\<close>. So the two copies that \<open>concat(r, r)\<close> embeds share that state,
  and the composite accepts \<open>ab\<close>, which is not two words of the template's language
  in a row: the template rejects the empty string and \<open>a\<close>.
\<close>


end

